theory Spec2Isabelle
  imports Complex_Main
begin

section \<open>The accrual and settlement engine of main.py\<close>

text \<open>
  The module keeps one dictionary, \<open>user_sessions\<close>, from lower-cased wallet
  address to a session with the keys \<open>start\<close>, \<open>earned\<close> and \<open>last_mint\<close>.
  Three handlers touch it: \<open>start_engine\<close>, \<open>get_metrics\<close> and \<open>stop_engine\<close>;
  \<open>get_metrics\<close> calls \<open>calculate_earnings\<close> and \<open>mint_tokens\<close>.

  Conventions of the embedding.
  \<^item> Python floats are idealised as \<open>real\<close>: rounding, infinities and NaN are
    outside the model. Decimal literals are written as fractions (\<open>0.85\<close> is
    \<open>85 / 100\<close>).
  \<^item> Strings are \<open>char list\<close>; \<open>str.lower\<close> is modelled on the ASCII letters
    and leaves every other character as it is.
  \<^item> The handlers mutate the module-level dictionary; the model passes it in and
    returns the updated one together with the handler's result.
  \<^item> A raised exception is the \<open>Inl\<close> branch of a sum.
  \<^item> What the web3 client answers, and whether a \<open>print\<close> in an exception handler
    succeeds, is decided by the environment; it is a parameter, the record \<open>world\<close>.
  \<^item> \<open>datetime.now().timestamp()\<close> is an input: \<open>clock k\<close> is the value of the
    \<open>k\<close>-th reading (counted from 0) that a handler makes during one call.
\<close>

subsection \<open>Static configuration\<close>

record strategy =
  apy :: real
  weight :: real

text \<open>The dictionary \<open>STRATEGIES\<close>, in insertion order (lines 49-62).\<close>

definition STRATEGIES :: "(string \<times> strategy) list" where
  "STRATEGIES =
    [(''aave_lending'', \<lparr>apy = 85 / 100, weight = 15 / 100\<rparr>),
     (''compound'', \<lparr>apy = 78 / 100, weight = 12 / 100\<rparr>),
     (''uniswap_v3'', \<lparr>apy = 245 / 100, weight = 18 / 100\<rparr>),
     (''curve_stable'', \<lparr>apy = 125 / 100, weight = 10 / 100\<rparr>),
     (''yearn_vaults'', \<lparr>apy = 198 / 100, weight = 15 / 100\<rparr>),
     (''convex'', \<lparr>apy = 312 / 100, weight = 10 / 100\<rparr>),
     (''balancer'', \<lparr>apy = 167 / 100, weight = 8 / 100\<rparr>),
     (''sushiswap'', \<lparr>apy = 289 / 100, weight = 5 / 100\<rparr>),
     (''mev_arb'', \<lparr>apy = 425 / 100, weight = 3 / 100\<rparr>),
     (''flashloan'', \<lparr>apy = 512 / 100, weight = 2 / 100\<rparr>),
     (''governance'', \<lparr>apy = 95 / 100, weight = 1 / 100\<rparr>),
     (''staking'', \<lparr>apy = 142 / 100, weight = 1 / 100\<rparr>)]"

definition AI_BOOST :: real where
  "AI_BOOST = 25 / 10"

text \<open>
  The truthiness of the module globals \<open>w3\<close> and \<open>admin_account\<close> (lines 26-32):
  each is \<open>None\<close> unless the environment supplied the credentials.
\<close>

record config =
  w3 :: bool
  admin_account :: bool

subsection \<open>Exceptions and the external collaborator\<close>

datatype exn =
  HTTPException nat string
  | AttributeError
  | TimeExhausted
  | ExternalError
  | UnicodeEncodeError

record receipt =
  tx_hash :: string
  status :: int

text \<open>
  Everything the \<open>try\<close> block of \<open>mint_tokens\<close> does between the test of the amount
  and the receipt (lines 159-185: the prints, the contract object, the checksum of the
  wallet address, gas price, nonce, signing, sending, waiting) is one call of the
  environment: given the wallet and the atomic amount it either raises (an address that
  is not 40 hex digits, a node error, a rejected transaction, \<open>TimeExhausted\<close> after
  120 seconds, a console that cannot print) or yields the receipt.
\<close>

type_synonym chain = "string \<Rightarrow> int \<Rightarrow> exn + receipt"

text \<open>
  The two \<open>print\<close> calls that sit in an \<open>except\<close> block are not inside any
  \<open>try\<close>: \<open>print(f"Error: {e}")\<close> at line 195 and \<open>print(f"Mint error: {e}")\<close>
  at line 137. Formatting or writing the message can itself raise (a message the console
  cannot encode, a closed standard output), and that exception leaves the function.
  For the exception \<open>e\<close> being reported, \<open>print_error\<close> and \<open>print_mint_error\<close>
  give \<open>None\<close> when the line prints and \<open>Some e'\<close> when it raises \<open>e'\<close>.
\<close>

record world =
  chain :: chain
  print_error :: "exn \<Rightarrow> exn option"
  print_mint_error :: "exn \<Rightarrow> exn option"

subsection \<open>Sessions\<close>

record session =
  start :: real
  earned :: real
  last_mint :: real

type_synonym sessions = "string \<rightharpoonup> session"

record metrics =
  totalProfit :: real
  hourlyRate :: real
  dailyProfit :: real
  activePositions :: nat
  pendingRewards :: real
  total_apy :: real

record start_ack =
  success :: bool
  message :: string
  boost :: real

subsection \<open>Strings\<close>

definition lower_char :: "char \<Rightarrow> char" where
  "lower_char c =
     (let n = (of_char c :: nat) in if 65 \<le> n \<and> n \<le> 90 then char_of (n + 32) else c)"

definition lower :: "string \<Rightarrow> string" where
  "lower s = map lower_char s"

text \<open>
  Two strings are case variants of each other when they have the same length and agree
  at every position up to the case of an ASCII letter. The comparison is made on the
  upper-cased characters, so it does not mention \<open>lower\<close>.
\<close>

definition upper_char :: "char \<Rightarrow> char" where
  "upper_char c =
     (let n = (of_char c :: nat) in if 97 \<le> n \<and> n \<le> 122 then char_of (n - 32) else c)"

definition case_variant :: "string \<Rightarrow> string \<Rightarrow> bool" where
  "case_variant a b = list_all2 (\<lambda>c d. upper_char c = upper_char d) a b"

subsection \<open>calculate_earnings (lines 73-76)\<close>

definition calculate_earnings :: "real \<Rightarrow> real \<Rightarrow> real \<times> real" where
  "calculate_earnings princ seconds =
     (let total_apy = sum_list (map (\<lambda>s. apy s * weight s) (map snd STRATEGIES)) * AI_BOOST;
          rate = total_apy / (365 * 24 * 3600)
      in (princ * rate * seconds, total_apy))"

subsection \<open>mint_tokens (lines 150-196)\<close>

text \<open>
  \<open>int(x)\<close> on a float truncates towards zero. On an infinite float or a NaN it
  raises, inside the \<open>try\<close> block of \<open>mint_tokens\<close>; the reals have no such value.
\<close>

definition py_int :: "real \<Rightarrow> int" where
  "py_int x = (if 0 \<le> x then \<lfloor>x\<rfloor> else \<lceil>x\<rceil>)"

text \<open>
  The body of the \<open>try\<close> block. Both branches of the test on \<open>receipt['status']\<close>
  only print, and the hash is returned after either. In \<open>mint_tokens\<close> the handler
  prints the exception and returns \<open>None\<close>, unless the print raises.
\<close>

definition mint_try :: "chain \<Rightarrow> string \<Rightarrow> real \<Rightarrow> exn + string option" where
  "mint_try ch wallet amount =
     (let token_amount = py_int (amount * 10 ^ 18) in
      if token_amount \<le> 0 then Inr None
      else (case ch wallet token_amount of
              Inl e \<Rightarrow> Inl e
            | Inr rc \<Rightarrow> Inr (Some (tx_hash rc))))"

definition mint_tokens :: "config \<Rightarrow> world \<Rightarrow> string \<Rightarrow> real \<Rightarrow> exn + string option" where
  "mint_tokens cfg wd wallet amount =
     (if \<not> w3 cfg \<or> \<not> admin_account cfg then Inr None
      else (case mint_try (chain wd) wallet amount of
              Inl e \<Rightarrow> (case print_error wd e of
                          Some e' \<Rightarrow> Inl e'
                        | None \<Rightarrow> Inr None)
            | Inr r \<Rightarrow> Inr r))"

subsection \<open>start_engine (lines 93-105)\<close>

definition new_session :: "(nat \<Rightarrow> real) \<Rightarrow> session" where
  "new_session clock = \<lparr>start = clock 0, earned = 0, last_mint = clock 1\<rparr>"

definition start_engine :: "(nat \<Rightarrow> real) \<Rightarrow> string \<Rightarrow> sessions \<Rightarrow> start_ack \<times> sessions" where
  "start_engine clock walletAddress user_sessions =
     (let wallet = lower walletAddress in
      (\<lparr>success = True, message = ''Engine started'', boost = AI_BOOST\<rparr>,
       user_sessions(wallet \<mapsto> new_session clock)))"

subsection \<open>get_metrics (lines 107-148)\<close>

text \<open>
  The header is \<open>None\<close> when absent. A session that does not exist yet is created
  with two readings of the clock, so \<open>now\<close> is the third reading of the call; for an
  existing session it is the first. The field \<open>total_apy\<close> of the answer is the number
  that the source formats with two decimals and a percent sign. The source's variable
  \<open>principal\<close> is \<open>princ\<close> here, the longer name being a constant of the library.
  When \<open>mint_tokens\<close> raises, the handler of line 136 prints and the function goes
  on with the session as the accrual left it; when that print raises too, the exception
  leaves \<open>get_metrics\<close>, and the dictionary keeps what lines 115-128 wrote.
\<close>

definition get_metrics ::
  "config \<Rightarrow> world \<Rightarrow> (nat \<Rightarrow> real) \<Rightarrow> string option \<Rightarrow> sessions \<Rightarrow> (exn + metrics) \<times> sessions" where
  "get_metrics cfg wd clock x_wallet_address user_sessions =
     (case x_wallet_address of
        None \<Rightarrow> (Inl (HTTPException 400 ''Wallet header required''), user_sessions)
      | Some x \<Rightarrow>
          if x = [] then (Inl (HTTPException 400 ''Wallet header required''), user_sessions)
          else
            let wallet = lower x;
                session0 = (case user_sessions wallet of
                              None \<Rightarrow> new_session clock
                            | Some s \<Rightarrow> s);
                now = (case user_sessions wallet of None \<Rightarrow> clock 2 | Some s \<Rightarrow> clock 0);
                running = now - start session0;
                since_mint = now - last_mint session0;
                princ = 100000;
                (earnings, apy) = calculate_earnings princ running;
                session1 = session0\<lparr>earned := earned session0 + earnings\<rparr>;
                after_mint =
                  (if since_mint \<ge> 5 \<and> w3 cfg \<and> admin_account cfg then
                     (case mint_tokens cfg wd wallet (earned session1) of
                        Inr r \<Rightarrow> Inr (session1\<lparr>last_mint := now, earned := 0\<rparr>)
                      | Inl e \<Rightarrow> (case print_mint_error wd e of
                                    Some e' \<Rightarrow> Inl e'
                                  | None \<Rightarrow> Inr session1))
                   else Inr session1);
                hourly = (if running > 0 then earnings / running * 3600 else 0)
            in (case after_mint of
                  Inl e' \<Rightarrow> (Inl e', user_sessions(wallet \<mapsto> session1))
                | Inr session2 \<Rightarrow>
                    (Inr \<lparr>totalProfit = earned session2,
                          hourlyRate = hourly,
                          dailyProfit = hourly * 24,
                          activePositions = length STRATEGIES,
                          pendingRewards = earned session2 * (1 / 10),
                          total_apy = apy * 100\<rparr>,
                     user_sessions(wallet \<mapsto> session2))))"

subsection \<open>stop_engine (lines 198-203)\<close>

text \<open>
  The request body is an arbitrary JSON object. Only the value stored under
  \<open>walletAddress\<close> matters, and only whether it is a string: \<open>.lower()\<close> on anything
  else raises \<open>AttributeError\<close>.
\<close>

datatype json = JString string | JOther

definition stop_engine :: "(string \<rightharpoonup> json) \<Rightarrow> sessions \<Rightarrow> (exn + bool) \<times> sessions" where
  "stop_engine req user_sessions =
     (case (case req ''walletAddress'' of None \<Rightarrow> JString [] | Some v \<Rightarrow> v) of
        JOther \<Rightarrow> (Inl AttributeError, user_sessions)
      | JString a \<Rightarrow>
          let wallet = lower a in
          (Inr True,
           if wallet \<in> dom user_sessions then user_sessions |` (- {wallet}) else user_sessions))"

subsection \<open>The test of line 131 and runs of calls\<close>

text \<open>
  \<open>metrics_before_mint\<close> is lines 109-131 of \<open>get_metrics\<close>: everything up to the
  decision to mint, with the argument that \<open>mint_tokens\<close> would receive. It tells
  which calls pass the test of line 131.
\<close>

record in_flight =
  mint_wallet :: string
  mint_now :: real
  mint_amount :: real

definition metrics_before_mint ::
  "config \<Rightarrow> (nat \<Rightarrow> real) \<Rightarrow> string option \<Rightarrow> sessions \<Rightarrow> (exn + in_flight option) \<times> sessions" where
  "metrics_before_mint cfg clock x_wallet_address user_sessions =
     (case x_wallet_address of
        None \<Rightarrow> (Inl (HTTPException 400 ''Wallet header required''), user_sessions)
      | Some x \<Rightarrow>
          if x = [] then (Inl (HTTPException 400 ''Wallet header required''), user_sessions)
          else
            let wallet = lower x;
                session0 = (case user_sessions wallet of
                              None \<Rightarrow> new_session clock
                            | Some s \<Rightarrow> s);
                now = (case user_sessions wallet of None \<Rightarrow> clock 2 | Some s \<Rightarrow> clock 0);
                running = now - start session0;
                since_mint = now - last_mint session0;
                princ = 100000;
                (earnings, apy) = calculate_earnings princ running;
                session1 = session0\<lparr>earned := earned session0 + earnings\<rparr>
            in (Inr (if since_mint \<ge> 5 \<and> w3 cfg \<and> admin_account cfg
                     then Some \<lparr>mint_wallet = wallet, mint_now = now,
                                 mint_amount = earned session1\<rparr>
                     else None),
                user_sessions(wallet \<mapsto> session1)))"

text \<open>
  A run of \<open>get_metrics\<close> calls, each finished before the next starts. Every call
  comes with its own environment, clock and header. The result counts the calls that
  passed the test of line 131 for the given wallet, that is, the calls of
  \<open>mint_tokens\<close> for it.
\<close>

fun metrics_calls ::
  "config \<Rightarrow> string \<Rightarrow> (world \<times> (nat \<Rightarrow> real) \<times> string option) list \<Rightarrow> sessions
     \<Rightarrow> nat \<times> sessions" where
  "metrics_calls cfg wallet [] user_sessions = (0, user_sessions)"
| "metrics_calls cfg wallet ((wd, clock, x) # calls) user_sessions =
     (let admitted = (case fst (metrics_before_mint cfg clock x user_sessions) of
                        Inr (Some f) \<Rightarrow> if mint_wallet f = wallet then 1 else 0
                      | _ \<Rightarrow> 0);
          (n, final) = metrics_calls cfg wallet calls
                         (snd (get_metrics cfg wd clock x user_sessions))
      in (admitted + n, final))"

subsection \<open>get_metrics around a mint in flight\<close>

text \<open>
  The handlers are plain \<open>def\<close>s, which the framework runs on worker threads, and
  \<open>mint_tokens\<close> blocks on the network for up to 120 seconds. Other handlers can
  therefore run from start to end while one call of \<open>get_metrics\<close> waits inside
  \<open>mint_tokens\<close>. The waiting call holds, in its local variable \<open>session\<close>, the
  dictionary object it read at line 121, and lines 134-135 write into that object,
  whether or not \<open>user_sessions\<close> still maps the wallet to it. To follow such
  schedules the session objects get identities: \<open>cells\<close> gives the content of every
  object, \<open>index\<close> is \<open>user_sessions\<close> with the objects named by their identities,
  and \<open>next_ref\<close> is the first identity not yet used.
\<close>

record store =
  cells :: "nat \<Rightarrow> session"
  index :: "string \<rightharpoonup> nat"
  next_ref :: nat

definition sessions_of :: "store \<Rightarrow> sessions" where
  "sessions_of st = (\<lambda>w. map_option (cells st) (index st w))"

text \<open>
  Every dictionary literal makes a new object, so no object is stored under two keys
  and every stored identity has been handed out.
\<close>

definition wf_store :: "store \<Rightarrow> bool" where
  "wf_store st \<longleftrightarrow>
     (\<forall>w r. index st w = Some r \<longrightarrow> r < next_ref st) \<and>
     (\<forall>w w' r. index st w = Some r \<longrightarrow> index st w' = Some r \<longrightarrow> w = w')"

definition store_new :: "string \<Rightarrow> session \<Rightarrow> store \<Rightarrow> store" where
  "store_new wallet s st =
     st\<lparr>cells := (cells st)(next_ref st := s),
        index := (index st)(wallet \<mapsto> next_ref st),
        next_ref := next_ref st + 1\<rparr>"

text \<open>\<open>start_engine\<close> on the store: the wallet is pointed to a new object.\<close>

definition start_engine_store :: "(nat \<Rightarrow> real) \<Rightarrow> string \<Rightarrow> store \<Rightarrow> start_ack \<times> store" where
  "start_engine_store clock walletAddress st =
     (let wallet = lower walletAddress in
      (\<lparr>success = True, message = ''Engine started'', boost = AI_BOOST\<rparr>,
       store_new wallet (new_session clock) st))"

text \<open>The dictionary that \<open>get_metrics\<close> returns (lines 139-148).\<close>

definition metrics_reply :: "session \<Rightarrow> real \<Rightarrow> real \<Rightarrow> real \<Rightarrow> metrics" where
  "metrics_reply session earnings running apy' =
     (let hourly = (if running > 0 then earnings / running * 3600 else 0)
      in \<lparr>totalProfit = earned session,
          hourlyRate = hourly,
          dailyProfit = hourly * 24,
          activePositions = length STRATEGIES,
          pendingRewards = earned session * (1 / 10),
          total_apy = apy' * 100\<rparr>)"

text \<open>
  The handler is cut at the call of \<open>mint_tokens\<close>. \<open>get_metrics_begin\<close> is lines
  109-133 up to that call: it answers at once when the test of line 131 fails, and
  otherwise yields the local variables of the waiting call, with the argument
  \<open>session["earned"]\<close> as evaluated at the call. \<open>get_metrics_finish\<close> is lines
  134-148, run when \<open>mint_tokens\<close> has returned or raised. Lemma
  \<open>get_metrics_cut\<close> shows that the two halves run back to back are \<open>get_metrics\<close>,
  and lemma \<open>metrics_before_mint_begin\<close> that the first half agrees with
  \<open>metrics_before_mint\<close>.
\<close>

record pending = in_flight +
  mint_session :: nat
  mint_earnings :: real
  mint_running :: real
  mint_apy :: real

definition get_metrics_begin ::
  "config \<Rightarrow> (nat \<Rightarrow> real) \<Rightarrow> string option \<Rightarrow> store \<Rightarrow> (exn + (metrics + pending)) \<times> store" where
  "get_metrics_begin cfg clock x_wallet_address st =
     (case x_wallet_address of
        None \<Rightarrow> (Inl (HTTPException 400 ''Wallet header required''), st)
      | Some x \<Rightarrow>
          if x = [] then (Inl (HTTPException 400 ''Wallet header required''), st)
          else
            let wallet = lower x;
                st1 = (case index st wallet of
                         None \<Rightarrow> store_new wallet (new_session clock) st
                       | Some r \<Rightarrow> st);
                session = (case index st wallet of None \<Rightarrow> next_ref st | Some r \<Rightarrow> r);
                now = (case index st wallet of None \<Rightarrow> clock 2 | Some r \<Rightarrow> clock 0);
                running = now - start (cells st1 session);
                since_mint = now - last_mint (cells st1 session);
                princ = 100000;
                (earnings, apy) = calculate_earnings princ running;
                st2 = st1\<lparr>cells := (cells st1)
                         (session := (cells st1 session)
                            \<lparr>earned := earned (cells st1 session) + earnings\<rparr>)\<rparr>
            in if since_mint \<ge> 5 \<and> w3 cfg \<and> admin_account cfg
               then (Inr (Inr \<lparr>mint_wallet = wallet, mint_now = now,
                               mint_amount = earned (cells st2 session),
                               mint_session = session, mint_earnings = earnings,
                               mint_running = running, mint_apy = apy\<rparr>),
                     st2)
               else (Inr (Inl (metrics_reply (cells st2 session) earnings running apy)), st2))"

definition get_metrics_finish ::
  "world \<Rightarrow> pending \<Rightarrow> exn + string option \<Rightarrow> store \<Rightarrow> (exn + metrics) \<times> store" where
  "get_metrics_finish wd f result st =
     (case result of
        Inr r \<Rightarrow>
          let st' = st\<lparr>cells := (cells st)
                       (mint_session f := (cells st (mint_session f))
                          \<lparr>last_mint := mint_now f, earned := 0\<rparr>)\<rparr>
          in (Inr (metrics_reply (cells st' (mint_session f))
                     (mint_earnings f) (mint_running f) (mint_apy f)),
              st')
      | Inl e \<Rightarrow>
          (case print_mint_error wd e of
             Some e' \<Rightarrow> (Inl e', st)
           | None \<Rightarrow>
               (Inr (metrics_reply (cells st (mint_session f))
                       (mint_earnings f) (mint_running f) (mint_apy f)),
                st)))"

text \<open>A well-formed wallet address (40 hex digits) for the examples.\<close>

abbreviation (input) wallet_a :: string where
  "wallet_a \<equiv> ''0xde709f2102306220921060314715629080e2fb77''"

text \<open>Strings of ASCII characters, on which \<open>lower\<close> is \<open>str.lower\<close>.\<close>

definition ascii_only :: "string \<Rightarrow> bool" where
  "ascii_only s = list_all (\<lambda>c. (of_char c :: nat) < 128) s"

section \<open>Auxiliary facts\<close>

subsection \<open>Lower-casing\<close>

lemma upper_char_code:
  "upper_char c = char_of (let n = of_char c :: nat in if 97 \<le> n \<and> n \<le> 122 then n - 32 else n)"
  by (simp add: upper_char_def Let_def)

lemma lower_char_code:
  "lower_char c = char_of (let n = of_char c :: nat in if 65 \<le> n \<and> n \<le> 90 then n + 32 else n)"
  by (simp add: lower_char_def Let_def)

lemma char_of_inj_256:
  "a < 256 \<Longrightarrow> b < 256 \<Longrightarrow> (char_of (a::nat) :: char) = char_of b \<Longrightarrow> a = b"
  by (metis of_char_of mod_less)

lemma upper_char_eq_lower_char_eq:
  assumes h: "upper_char c = upper_char d"
  shows "lower_char c = lower_char d"
proof -
  define n where "n = (of_char c :: nat)"
  define m where "m = (of_char d :: nat)"
  have n: "n < 256" and m: "m < 256" by (simp_all add: n_def m_def)
  let ?f = "\<lambda>k::nat. if 97 \<le> k \<and> k \<le> 122 then k - 32 else k"
  let ?g = "\<lambda>k::nat. if 65 \<le> k \<and> k \<le> 90 then k + 32 else k"
  from h have "(char_of (?f n) :: char) = char_of (?f m)"
    unfolding upper_char_code Let_def n_def m_def .
  moreover have "?f n < 256" "?f m < 256" using n m by auto
  ultimately have "?f n = ?f m" by (rule_tac char_of_inj_256)
  then have "?g n = ?g m" by (auto split: if_splits)
  then have "(char_of (?g n) :: char) = char_of (?g m)" by (rule arg_cong)
  then show ?thesis
    unfolding lower_char_code Let_def n_def m_def .
qed

lemma case_variant_lower: "case_variant a b \<Longrightarrow> lower a = lower b"
  unfolding case_variant_def lower_def
  by (induction a b rule: list_all2_induct) (auto dest: upper_char_eq_lower_char_eq)

lemma lower_0xABC: "lower ''0xABC'' = ''0xabc''"
  by code_simp

lemma lower_0xabc: "lower ''0xabc'' = ''0xabc''"
  by code_simp

lemma case_variant_0xABC: "case_variant ''0xABC'' ''0xabc''"
  by code_simp

lemma lower_wallet_a: "lower wallet_a = wallet_a"
  by code_simp

lemma ascii_only_0xABC: "ascii_only ''0xABC''"
  by code_simp

subsection \<open>The accrual rate\<close>

lemma weighted_apy_sum:
  "sum_list (map (\<lambda>s. apy s * weight s) (map snd STRATEGIES)) = 19278 / 10000"
  unfolding STRATEGIES_def by simp

lemma calculate_earnings_value:
  "calculate_earnings p t = (p * (48195 / 10000 / 31536000) * t, 48195 / 10000)"
  unfolding calculate_earnings_def Let_def weighted_apy_sum AI_BOOST_def by simp

subsection \<open>What mint_tokens returns\<close>

lemma mint_tokens_value:
  "mint_tokens cfg wd w a =
     (if \<not> w3 cfg \<or> \<not> admin_account cfg \<or> py_int (a * 10 ^ 18) \<le> 0 then Inr None
      else (case chain wd w (py_int (a * 10 ^ 18)) of
              Inl e \<Rightarrow> (case print_error wd e of Some e' \<Rightarrow> Inl e' | None \<Rightarrow> Inr None)
            | Inr rc \<Rightarrow> Inr (Some (tx_hash rc))))"
  by (simp add: mint_tokens_def mint_try_def Let_def split: sum.splits option.splits)

lemma mint_tokens_returns:
  assumes "\<forall>e. print_error wd e = None"
  shows "\<exists>r. mint_tokens cfg wd w a = Inr r"
  using assms by (simp add: mint_tokens_value split: sum.splits)

subsection \<open>What a call of get_metrics with a header leaves behind\<close>

lemma get_metrics_invalid:
  "x = None \<or> x = Some [] \<Longrightarrow>
     get_metrics cfg wd clock x s = (Inl (HTTPException 400 ''Wallet header required''), s)"
  by (auto simp: get_metrics_def)

lemma get_metrics_unfold:
  assumes "x \<noteq> []"
  shows "get_metrics cfg wd clock (Some x) s =
     (let wallet = lower x;
          session0 = (case s wallet of None \<Rightarrow> new_session clock | Some s0 \<Rightarrow> s0);
          now = (case s wallet of None \<Rightarrow> clock 2 | Some s0 \<Rightarrow> clock 0);
          running = now - start session0;
          earnings = fst (calculate_earnings 100000 running);
          apy' = snd (calculate_earnings 100000 running);
          session1 = session0\<lparr>earned := earned session0 + earnings\<rparr>
      in if 5 \<le> now - last_mint session0 \<and> w3 cfg \<and> admin_account cfg
         then (case mint_tokens cfg wd wallet (earned session1) of
                 Inr r \<Rightarrow>
                   (Inr (metrics_reply (session1\<lparr>last_mint := now, earned := 0\<rparr>) earnings running apy'),
                    s(wallet \<mapsto> session1\<lparr>last_mint := now, earned := 0\<rparr>))
               | Inl e \<Rightarrow>
                   (case print_mint_error wd e of
                      Some e' \<Rightarrow> (Inl e', s(wallet \<mapsto> session1))
                    | None \<Rightarrow>
                        (Inr (metrics_reply session1 earnings running apy'), s(wallet \<mapsto> session1))))
         else (Inr (metrics_reply session1 earnings running apy'), s(wallet \<mapsto> session1)))"
  using assms
  by (simp add: get_metrics_def metrics_reply_def Let_def case_prod_beta
           split: sum.splits option.splits)

lemma get_metrics_existing:
  assumes "x \<noteq> []" and "s (lower x) = Some sess"
  shows "get_metrics cfg wd clock (Some x) s =
     (let wallet = lower x;
          now = clock 0;
          running = now - start sess;
          earnings = fst (calculate_earnings 100000 running);
          apy' = snd (calculate_earnings 100000 running);
          session1 = sess\<lparr>earned := earned sess + earnings\<rparr>
      in if 5 \<le> now - last_mint sess \<and> w3 cfg \<and> admin_account cfg
         then (case mint_tokens cfg wd wallet (earned session1) of
                 Inr r \<Rightarrow>
                   (Inr (metrics_reply (session1\<lparr>last_mint := now, earned := 0\<rparr>) earnings running apy'),
                    s(wallet \<mapsto> session1\<lparr>last_mint := now, earned := 0\<rparr>))
               | Inl e \<Rightarrow>
                   (case print_mint_error wd e of
                      Some e' \<Rightarrow> (Inl e', s(wallet \<mapsto> session1))
                    | None \<Rightarrow>
                        (Inr (metrics_reply session1 earnings running apy'), s(wallet \<mapsto> session1))))
         else (Inr (metrics_reply session1 earnings running apy'), s(wallet \<mapsto> session1)))"
  using assms
  by (simp add: get_metrics_def metrics_reply_def Let_def case_prod_beta
           split: sum.splits option.splits)

lemma get_metrics_state:
  assumes "x \<noteq> []"
  shows "snd (get_metrics cfg wd clock (Some x) s) =
     s(lower x \<mapsto>
       (let session0 = (case s (lower x) of None \<Rightarrow> new_session clock | Some s0 \<Rightarrow> s0);
            now = (case s (lower x) of None \<Rightarrow> clock 2 | Some s0 \<Rightarrow> clock 0);
            session1 = session0\<lparr>earned := earned session0 +
                         fst (calculate_earnings 100000 (now - start session0))\<rparr>
        in if 5 \<le> now - last_mint session0 \<and> w3 cfg \<and> admin_account cfg
           then (case mint_tokens cfg wd (lower x) (earned session1) of
                   Inr r \<Rightarrow> session1\<lparr>last_mint := now, earned := 0\<rparr>
                 | Inl e \<Rightarrow> session1)
           else session1))"
  using assms
  by (simp add: get_metrics_def Let_def case_prod_beta split: sum.splits option.splits)

lemma get_metrics_answers:
  assumes "x \<noteq> []" and "fst (get_metrics cfg wd clock (Some x) s) = Inr m"
  shows "Some (totalProfit m) = map_option earned (snd (get_metrics cfg wd clock (Some x) s) (lower x))"
  using assms
  by (auto simp: get_metrics_def Let_def case_prod_beta split: sum.splits option.splits if_splits)

lemma get_metrics_not_admitted:
  assumes "x \<noteq> []"
    and "\<not> (5 \<le> (case s (lower x) of None \<Rightarrow> clock 2 | Some s0 \<Rightarrow> clock 0)
                  - last_mint (case s (lower x) of None \<Rightarrow> new_session clock | Some s0 \<Rightarrow> s0)
             \<and> w3 cfg \<and> admin_account cfg)"
  shows "\<exists>m. fst (get_metrics cfg wd clock (Some x) s) = Inr m"
  using assms
  by (auto simp: get_metrics_def Let_def case_prod_beta split: sum.splits option.splits)

subsection \<open>Runs of calls\<close>

lemma metrics_before_mint_Some:
  assumes "x \<noteq> []"
  shows "metrics_before_mint cfg clock (Some x) s =
     (let session0 = (case s (lower x) of None \<Rightarrow> new_session clock | Some s0 \<Rightarrow> s0);
          now = (case s (lower x) of None \<Rightarrow> clock 2 | Some s0 \<Rightarrow> clock 0);
          amount = earned session0 + fst (calculate_earnings 100000 (now - start session0))
      in (Inr (if 5 \<le> now - last_mint session0 \<and> w3 cfg \<and> admin_account cfg
               then Some \<lparr>mint_wallet = lower x, mint_now = now, mint_amount = amount\<rparr>
               else None),
          s(lower x \<mapsto> session0\<lparr>earned := amount\<rparr>)))"
  using assms by (simp add: metrics_before_mint_def Let_def case_prod_beta)

lemma metrics_before_mint_invalid:
  "x = None \<or> x = Some [] \<Longrightarrow>
     metrics_before_mint cfg clock x s = (Inl (HTTPException 400 ''Wallet header required''), s)"
  by (auto simp: metrics_before_mint_def)

lemma metrics_calls_Cons:
  "fst (metrics_calls cfg wallet ((wd, c, x) # calls) s) =
     (case fst (metrics_before_mint cfg c x s) of
        Inr (Some f) \<Rightarrow> if mint_wallet f = wallet then 1 else 0
      | _ \<Rightarrow> 0)
     + fst (metrics_calls cfg wallet calls (snd (get_metrics cfg wd c x s)))"
  by (simp add: Let_def case_prod_beta)

lemma metrics_calls_none_admitted:
  assumes "\<forall>(wd, c, x)\<in>set calls. \<forall>k. t \<le> c k \<and> c k < t + 5"
    and "\<forall>sess. s wallet = Some sess \<longrightarrow> t \<le> last_mint sess"
  shows "fst (metrics_calls cfg wallet calls s) = 0"
  using assms
proof (induction calls arbitrary: s)
  case Nil
  then show ?case by simp
next
  case (Cons call calls)
  obtain wd c x where call: "call = (wd, c, x)" by (cases call)
  have win: "\<And>k. t \<le> c k \<and> c k < t + 5" using Cons.prems(1) call by simp
  have rest: "\<forall>(wd, c, x)\<in>set calls. \<forall>k. t \<le> c k \<and> c k < t + 5"
    using Cons.prems(1) by simp
  show ?case
  proof (cases "x = None \<or> x = Some []")
    case True
    then have "fst (metrics_before_mint cfg c x s) = Inl (HTTPException 400 ''Wallet header required'')"
      and "snd (get_metrics cfg wd c x s) = s"
      by (simp_all add: metrics_before_mint_invalid get_metrics_invalid)
    then show ?thesis
      unfolding call metrics_calls_Cons using Cons.IH [of s, OF rest Cons.prems(2)] by simp
  next
    case False
    then obtain h where h: "x = Some h" "h \<noteq> []" by auto
    let ?session0 = "case s (lower h) of None \<Rightarrow> new_session c | Some s0 \<Rightarrow> s0"
    let ?now = "case s (lower h) of None \<Rightarrow> c 2 | Some s0 \<Rightarrow> c 0"
    let ?session1 = "?session0\<lparr>earned := earned ?session0 +
                       fst (calculate_earnings 100000 (?now - start ?session0))\<rparr>"
    show ?thesis
    proof (cases "lower h = wallet")
      case True
      have lm: "t \<le> last_mint ?session0"
        using Cons.prems(2) True win [of 1] by (auto simp: new_session_def split: option.splits)
      have nw: "?now < t + 5" using win [of 0] win [of 2] by (auto split: option.splits)
      have no: "\<not> 5 \<le> ?now - last_mint ?session0" using lm nw by linarith
      have b: "fst (metrics_before_mint cfg c x s) = Inr None"
        unfolding h(1) metrics_before_mint_Some [OF h(2)] using no by (simp add: Let_def)
      have g: "snd (get_metrics cfg wd c x s) = s(lower h \<mapsto> ?session1)"
        unfolding h(1) get_metrics_state [OF h(2)] using no by (simp add: Let_def)
      have inv: "\<forall>sess. (snd (get_metrics cfg wd c x s)) wallet = Some sess \<longrightarrow> t \<le> last_mint sess"
        unfolding g using True lm by simp
      show ?thesis
        unfolding call metrics_calls_Cons b using Cons.IH [of "snd (get_metrics cfg wd c x s)", OF rest inv] by simp
    next
      case False
      have b: "(case fst (metrics_before_mint cfg c x s) of
                  Inr (Some f) \<Rightarrow> if mint_wallet f = wallet then 1 else 0
                | _ \<Rightarrow> 0) = (0::nat)"
        unfolding h(1) metrics_before_mint_Some [OF h(2)] using False by (simp add: Let_def)
      have "snd (get_metrics cfg wd c x s) wallet = s wallet"
        unfolding h(1) get_metrics_state [OF h(2)] using False by simp
      then have inv: "\<forall>sess. (snd (get_metrics cfg wd c x s)) wallet = Some sess \<longrightarrow> t \<le> last_mint sess"
        using Cons.prems(2) by simp
      show ?thesis
        unfolding call metrics_calls_Cons b using Cons.IH [of "snd (get_metrics cfg wd c x s)", OF rest inv] by simp
    qed
  qed
qed

subsection \<open>The store of session objects\<close>

lemma sessions_of_cells_upd:
  assumes "wf_store st" and "index st w = Some r"
  shows "sessions_of (st\<lparr>cells := (cells st)(r := v)\<rparr>) = (sessions_of st)(w \<mapsto> v)"
proof
  fix w'
  show "sessions_of (st\<lparr>cells := (cells st)(r := v)\<rparr>) w' = ((sessions_of st)(w \<mapsto> v)) w'"
    using assms by (cases "index st w'") (auto simp: sessions_of_def wf_store_def)
qed

lemma wf_store_cells_upd: "wf_store st \<Longrightarrow> wf_store (st\<lparr>cells := c\<rparr>)"
  by (simp add: wf_store_def)

lemma sessions_of_store_new:
  assumes "wf_store st"
  shows "sessions_of (store_new w v st) = (sessions_of st)(w \<mapsto> v)"
proof
  fix w'
  show "sessions_of (store_new w v st) w' = ((sessions_of st)(w \<mapsto> v)) w'"
    using assms by (cases "index st w'") (auto simp: sessions_of_def wf_store_def store_new_def)
qed

lemma wf_store_new:
  assumes "wf_store st"
  shows "wf_store (store_new w v st)"
  using assms unfolding wf_store_def store_new_def
  by (auto simp: less_Suc_eq split: if_splits)

lemma start_engine_store_sessions:
  assumes "wf_store st"
  shows "sessions_of (snd (start_engine_store clock a st)) = snd (start_engine clock a (sessions_of st))"
  using assms by (simp add: start_engine_store_def start_engine_def Let_def sessions_of_store_new)

lemma finish_leaves_other_objects:
  assumes "index st w = Some r'" and "r' \<noteq> mint_session f"
  shows "sessions_of (snd (get_metrics_finish wd f result st)) w = sessions_of st w"
  using assms
  by (auto simp: get_metrics_finish_def sessions_of_def Let_def split: sum.splits option.splits)

lemma get_metrics_begin_invalid:
  "x = None \<or> x = Some [] \<Longrightarrow>
     get_metrics_begin cfg clock x st = (Inl (HTTPException 400 ''Wallet header required''), st)"
  by (auto simp: get_metrics_begin_def)

lemma get_metrics_begin_unfold:
  assumes "x \<noteq> []"
  shows "get_metrics_begin cfg clock (Some x) st =
     (let wallet = lower x;
          st1 = (case index st wallet of
                   None \<Rightarrow> store_new wallet (new_session clock) st
                 | Some r \<Rightarrow> st);
          session = (case index st wallet of None \<Rightarrow> next_ref st | Some r \<Rightarrow> r);
          now = (case index st wallet of None \<Rightarrow> clock 2 | Some r \<Rightarrow> clock 0);
          running = now - start (cells st1 session);
          earnings = fst (calculate_earnings 100000 running);
          apy' = snd (calculate_earnings 100000 running);
          session1 = (cells st1 session)\<lparr>earned := earned (cells st1 session) + earnings\<rparr>;
          st2 = st1\<lparr>cells := (cells st1)(session := session1)\<rparr>
      in if 5 \<le> now - last_mint (cells st1 session) \<and> w3 cfg \<and> admin_account cfg
         then (Inr (Inr \<lparr>mint_wallet = wallet, mint_now = now, mint_amount = earned session1,
                         mint_session = session, mint_earnings = earnings,
                         mint_running = running, mint_apy = apy'\<rparr>),
               st2)
         else (Inr (Inl (metrics_reply session1 earnings running apy')), st2))"
  using assms
  by (simp add: get_metrics_begin_def Let_def case_prod_beta)

lemma get_metrics_cut:
  assumes "wf_store st"
  shows "get_metrics cfg wd clock x (sessions_of st) =
     (case get_metrics_begin cfg clock x st of
        (Inl e, st') \<Rightarrow> (Inl e, sessions_of st')
      | (Inr (Inl m), st') \<Rightarrow> (Inr m, sessions_of st')
      | (Inr (Inr f), st') \<Rightarrow>
          map_prod id sessions_of
            (get_metrics_finish wd f (mint_tokens cfg wd (mint_wallet f) (mint_amount f)) st'))"
proof (cases "x = None \<or> x = Some []")
  case True
  then show ?thesis by (simp add: get_metrics_invalid get_metrics_begin_invalid)
next
  case False
  then obtain h where h: "x = Some h" "h \<noteq> []" by auto
  let ?w = "lower h"
  show ?thesis
  proof (cases "index st ?w")
    case None
    let ?st1 = "store_new ?w (new_session clock) st"
    let ?r = "next_ref st"
    have sn: "sessions_of st ?w = None" using None by (simp add: sessions_of_def)
    have wf1: "wf_store ?st1" using assms by (rule wf_store_new)
    have ix1: "index ?st1 ?w = Some ?r" by (simp add: store_new_def)
    have c1: "cells ?st1 ?r = new_session clock" by (simp add: store_new_def)
    have upd: "sessions_of (?st1\<lparr>cells := (cells ?st1)(?r := v)\<rparr>) = (sessions_of st)(?w \<mapsto> v)" for v
      using sessions_of_cells_upd [OF wf1 ix1, of v] sessions_of_store_new [OF assms, of ?w "new_session clock"]
      by simp
    have upd2: "sessions_of (?st1\<lparr>cells := ((cells ?st1)(?r := v))(?r := v')\<rparr>)
                 = (sessions_of st)(?w \<mapsto> v')" for v v'
      using upd [of v'] by simp
    show ?thesis
      unfolding h(1) get_metrics_unfold [OF h(2)] get_metrics_begin_unfold [OF h(2)] Let_def
      by (simp add: None sn c1 get_metrics_finish_def Let_def upd upd2
            split: sum.splits option.splits)
  next
    case (Some r)
    have sn: "sessions_of st ?w = Some (cells st r)" using Some by (simp add: sessions_of_def)
    have upd: "sessions_of (st\<lparr>cells := (cells st)(r := v)\<rparr>) = (sessions_of st)(?w \<mapsto> v)" for v
      by (rule sessions_of_cells_upd [OF assms Some])
    have upd2: "sessions_of (st\<lparr>cells := ((cells st)(r := v))(r := v')\<rparr>)
                 = (sessions_of st)(?w \<mapsto> v')" for v v'
      using upd [of v'] by simp
    show ?thesis
      unfolding h(1) get_metrics_unfold [OF h(2)] get_metrics_begin_unfold [OF h(2)] Let_def
      by (simp add: Some sn get_metrics_finish_def Let_def upd upd2
            split: sum.splits option.splits)
  qed
qed

lemma metrics_before_mint_begin:
  assumes "wf_store st"
  shows "metrics_before_mint cfg clock x (sessions_of st) =
     (case get_metrics_begin cfg clock x st of
        (Inl e, st') \<Rightarrow> (Inl e, sessions_of st')
      | (Inr (Inl m), st') \<Rightarrow> (Inr None, sessions_of st')
      | (Inr (Inr f), st') \<Rightarrow>
          (Inr (Some \<lparr>mint_wallet = mint_wallet f, mint_now = mint_now f,
                        mint_amount = mint_amount f\<rparr>),
           sessions_of st'))"
proof (cases "x = None \<or> x = Some []")
  case True
  then show ?thesis by (simp add: metrics_before_mint_invalid get_metrics_begin_invalid)
next
  case False
  then obtain h where h: "x = Some h" "h \<noteq> []" by auto
  let ?w = "lower h"
  show ?thesis
  proof (cases "index st ?w")
    case None
    let ?st1 = "store_new ?w (new_session clock) st"
    let ?r = "next_ref st"
    have sn: "sessions_of st ?w = None" using None by (simp add: sessions_of_def)
    have wf1: "wf_store ?st1" using assms by (rule wf_store_new)
    have ix1: "index ?st1 ?w = Some ?r" by (simp add: store_new_def)
    have c1: "cells ?st1 ?r = new_session clock" by (simp add: store_new_def)
    have upd: "sessions_of (?st1\<lparr>cells := (cells ?st1)(?r := v)\<rparr>) = (sessions_of st)(?w \<mapsto> v)" for v
      using sessions_of_cells_upd [OF wf1 ix1, of v] sessions_of_store_new [OF assms, of ?w "new_session clock"]
      by simp
    show ?thesis
      unfolding h(1) metrics_before_mint_Some [OF h(2)] get_metrics_begin_unfold [OF h(2)] Let_def
      by (simp add: None sn c1 upd)
  next
    case (Some r)
    have sn: "sessions_of st ?w = Some (cells st r)" using Some by (simp add: sessions_of_def)
    have upd: "sessions_of (st\<lparr>cells := (cells st)(r := v)\<rparr>) = (sessions_of st)(?w \<mapsto> v)" for v
      by (rule sessions_of_cells_upd [OF assms Some])
    show ?thesis
      unfolding h(1) metrics_before_mint_Some [OF h(2)] get_metrics_begin_unfold [OF h(2)] Let_def
      by (simp add: Some sn upd)
  qed
qed

section \<open>Properties of the accrual calculation\<close>

text \<open>
  Claim C4. For every principal and every elapsed time (in particular the non-negative
  ones) \<open>calculate_earnings\<close> returns the amount
  \<open>principal * (boost * \<Sum>(apy * weight) / (365 * 86400)) * elapsed\<close> together with the
  effective APY \<open>boost * \<Sum>(apy * weight)\<close>, the sum taken over the strategy table and
  the boost being 2.5. The result is a function of the two arguments alone; on the
  table of the source the effective APY is 4.8195.
\<close>

theorem calculate_earnings_formula:
  "calculate_earnings p t =
     (p * (AI_BOOST * sum_list (map (\<lambda>s. apy s * weight s) (map snd STRATEGIES)) / (365 * 86400)) * t,
      AI_BOOST * sum_list (map (\<lambda>s. apy s * weight s) (map snd STRATEGIES)))
   \<and> AI_BOOST = 25 / 10
   \<and> AI_BOOST * sum_list (map (\<lambda>s. apy s * weight s) (map snd STRATEGIES)) = 48195 / 10000"
  unfolding calculate_earnings_def Let_def weighted_apy_sum AI_BOOST_def by simp

text \<open>
  Claim C5 as stated (a negative elapsed time gives the amount 0) fails: one second
  of negative elapsed time on the principal 100000 gives a negative amount.
\<close>

theorem negative_elapsed_counterexample:
  "fst (calculate_earnings 100000 (- 1)) < 0"
  unfolding calculate_earnings_value by simp

text \<open>
  Claim C5, amended. \<open>calculate_earnings\<close> does not clamp the elapsed time: for a
  principal \<open>p \<ge> 0\<close> and a negative elapsed time \<open>t\<close> it returns
  \<open>p * rate * t\<close>, which is never positive and is 0 exactly when the principal is 0.
\<close>

theorem negative_elapsed_accrual:
  assumes "0 \<le> p" and "t < 0"
  shows "fst (calculate_earnings p t) = p * (48195 / 10000 / 31536000) * t
         \<and> fst (calculate_earnings p t) \<le> 0
         \<and> (fst (calculate_earnings p t) = 0 \<longleftrightarrow> p = 0)"
proof -
  have v: "fst (calculate_earnings p t) = p * (48195 / 10000 / 31536000) * t"
    unfolding calculate_earnings_value by simp
  have "p * t \<le> 0" using assms by (simp add: mult_nonneg_nonpos)
  then have le: "fst (calculate_earnings p t) \<le> 0" unfolding v by simp
  have "fst (calculate_earnings p t) = 0 \<longleftrightarrow> p = 0" unfolding v using assms by simp
  with v le show ?thesis by blast
qed

theorem negative_elapsed_accrual_witness:
  "(0::real) \<le> 100000 \<and> (- 1 :: real) < 0
   \<and> fst (calculate_earnings 100000 (- 1)) = 100000 * (48195 / 10000 / 31536000) * (- 1)
   \<and> fst (calculate_earnings 100000 (- 1)) \<le> 0
   \<and> (fst (calculate_earnings 100000 (- 1)) = 0 \<longleftrightarrow> (100000::real) = 0)"
  using negative_elapsed_accrual [of 100000 "- 1"] by simp

section \<open>Validation of the wallet header\<close>

text \<open>
  Claim C7. Called without a wallet header, \<open>get_metrics\<close> raises the HTTP error 400
  and leaves \<open>user_sessions\<close> as it was. An empty header is treated the same way.
\<close>

theorem get_metrics_missing_wallet:
  "get_metrics cfg wd clock None user_sessions =
     (Inl (HTTPException 400 ''Wallet header required''), user_sessions)
   \<and> get_metrics cfg wd clock (Some []) user_sessions =
     (Inl (HTTPException 400 ''Wallet header required''), user_sessions)"
  by (simp add: get_metrics_def)

section \<open>Sessions are keyed by the lower-cased address\<close>

text \<open>
  Claim C8 as stated (for every address string) fails at the empty string:
  \<open>start_engine\<close> stores a session under it, and \<open>get_metrics\<close> with the same,
  empty, header raises the HTTP error 400 by the test of line 109 and reads no session.
\<close>

theorem empty_address_counterexample:
  "case_variant [] []
   \<and> snd (start_engine (\<lambda>k. 0) [] Map.empty) [] = Some \<lparr>start = 0, earned = 0, last_mint = 0\<rparr>
   \<and> get_metrics \<lparr>w3 = False, admin_account = False\<rparr>
        \<lparr>chain = \<lambda>w n. Inl ExternalError, print_error = \<lambda>e. None, print_mint_error = \<lambda>e. None\<rparr>
        (\<lambda>k. 1) (Some []) (snd (start_engine (\<lambda>k. 0) [] Map.empty))
      = (Inl (HTTPException 400 ''Wallet header required''),
         snd (start_engine (\<lambda>k. 0) [] Map.empty))"
  by (simp add: case_variant_def start_engine_def lower_def new_session_def get_metrics_def)

text \<open>
  Claim C8, amended. For every address \<open>a\<close> of ASCII characters and every non-empty
  header \<open>h\<close> that is a case variant of \<open>a\<close>, \<open>get_metrics\<close> after
  \<open>start_engine\<close> works on the session that \<open>start_engine\<close> stored under the
  lower-cased address. Its elapsed times are counted from the two clock readings of
  \<open>start_engine\<close>, its \<open>now\<close> is the first clock reading of the call, as for a
  session that exists, the mint is asked for the lower-cased address, and the only entry
  written is the one under that address. The whole result of the call is given.
\<close>

theorem start_then_metrics_same_session:
  assumes "case_variant a h" and "h \<noteq> []" and "ascii_only a"
  shows "snd (start_engine started a user_sessions) = user_sessions(lower a \<mapsto> new_session started)
     \<and> get_metrics cfg wd clock (Some h) (snd (start_engine started a user_sessions)) =
     (let wallet = lower a;
          session0 = new_session started;
          now = clock 0;
          running = now - start session0;
          earnings = fst (calculate_earnings 100000 running);
          apy' = snd (calculate_earnings 100000 running);
          session1 = session0\<lparr>earned := earned session0 + earnings\<rparr>
      in if 5 \<le> now - last_mint session0 \<and> w3 cfg \<and> admin_account cfg
         then (case mint_tokens cfg wd wallet (earned session1) of
                 Inr r \<Rightarrow>
                   (Inr (metrics_reply (session1\<lparr>last_mint := now, earned := 0\<rparr>) earnings running apy'),
                    user_sessions(wallet \<mapsto> session1\<lparr>last_mint := now, earned := 0\<rparr>))
               | Inl e \<Rightarrow>
                   (case print_mint_error wd e of
                      Some e' \<Rightarrow> (Inl e', user_sessions(wallet \<mapsto> session1))
                    | None \<Rightarrow>
                        (Inr (metrics_reply session1 earnings running apy'),
                         user_sessions(wallet \<mapsto> session1))))
         else (Inr (metrics_reply session1 earnings running apy'),
               user_sessions(wallet \<mapsto> session1)))"
proof -
  let ?s1 = "user_sessions(lower a \<mapsto> new_session started)"
  have s1: "snd (start_engine started a user_sessions) = ?s1"
    by (simp add: start_engine_def Let_def)
  have eq: "lower h = lower a" using assms(1) by (simp add: case_variant_lower)
  have look: "?s1 (lower h) = Some (new_session started)" by (simp add: eq)
  show ?thesis
    unfolding s1
      get_metrics_existing [where x = h and s = ?s1 and sess = "new_session started", OF assms(2) look]
      eq
    by (simp add: Let_def split: sum.splits option.splits)
qed

theorem start_then_metrics_same_session_witness:
  "case_variant ''0xABC'' ''0xabc'' \<and> ''0xabc'' \<noteq> [] \<and> ascii_only ''0xABC''
   \<and> get_metrics \<lparr>w3 = False, admin_account = False\<rparr>
        \<lparr>chain = \<lambda>w n. Inl ExternalError, print_error = \<lambda>e. None, print_mint_error = \<lambda>e. None\<rparr>
        (\<lambda>k. 10) (Some ''0xabc'') (snd (start_engine (\<lambda>k. 0) ''0xABC'' Map.empty))
      = (Inr (metrics_reply \<lparr>start = 0, earned = 357 / 2336, last_mint = 0\<rparr> (357 / 2336) 10 (48195 / 10000)),
         [''0xabc'' \<mapsto> \<lparr>start = 0, earned = 357 / 2336, last_mint = 0\<rparr>])"
proof -
  have ne: "''0xabc'' \<noteq> []" by simp
  show ?thesis
    using start_then_metrics_same_session [where a = "''0xABC''" and h = "''0xabc''"
          and started = "\<lambda>k. 0" and user_sessions = Map.empty
          and cfg = "\<lparr>w3 = False, admin_account = False\<rparr>"
          and wd = "\<lparr>chain = \<lambda>w n. Inl ExternalError, print_error = \<lambda>e. None, print_mint_error = \<lambda>e. None\<rparr>"
          and clock = "\<lambda>k. 10", OF case_variant_0xABC ne ascii_only_0xABC]
        case_variant_0xABC ascii_only_0xABC
    unfolding lower_0xABC calculate_earnings_value by (auto simp: Let_def new_session_def)
qed

section \<open>Stopping a session\<close>

text \<open>
  Claim C9. For a request that carries the wallet address \<open>a\<close>, \<open>stop_engine\<close>
  answers success, the wallet has no session afterwards, every other wallet keeps its
  session, a wallet without a session leaves the dictionary as it was, and a second
  call changes nothing more.
\<close>

theorem stop_engine_idempotent:
  assumes "req ''walletAddress'' = Some (JString a)"
  shows "fst (stop_engine req user_sessions) = Inr True
         \<and> snd (stop_engine req user_sessions) (lower a) = None
         \<and> (\<forall>w. w \<noteq> lower a \<longrightarrow> snd (stop_engine req user_sessions) w = user_sessions w)
         \<and> (user_sessions (lower a) = None \<longrightarrow> snd (stop_engine req user_sessions) = user_sessions)
         \<and> stop_engine req (snd (stop_engine req user_sessions)) =
             (Inr True, snd (stop_engine req user_sessions))"
  using assms by (auto simp: stop_engine_def Let_def restrict_map_def domIff)

theorem stop_engine_idempotent_witness:
  "[''walletAddress'' \<mapsto> JString ''0xABC''] ''walletAddress'' = Some (JString ''0xABC'')
   \<and> fst (stop_engine [''walletAddress'' \<mapsto> JString ''0xABC'']
                       [''0xabc'' \<mapsto> \<lparr>start = 0, earned = 5, last_mint = 0\<rparr>]) = Inr True
   \<and> snd (stop_engine [''walletAddress'' \<mapsto> JString ''0xABC'']
                       [''0xabc'' \<mapsto> \<lparr>start = 0, earned = 5, last_mint = 0\<rparr>]) ''0xabc'' = None
   \<and> [''0xdef'' \<mapsto> \<lparr>start = 0, earned = 5, last_mint = 0\<rparr>] ''0xabc'' = None
   \<and> stop_engine [''walletAddress'' \<mapsto> JString ''0xABC'']
                  [''0xdef'' \<mapsto> \<lparr>start = 0, earned = 5, last_mint = 0\<rparr>]
       = (Inr True, [''0xdef'' \<mapsto> \<lparr>start = 0, earned = 5, last_mint = 0\<rparr>])"
  using stop_engine_idempotent [of "[''walletAddress'' \<mapsto> JString ''0xABC'']" "''0xABC''"
          "[''0xabc'' \<mapsto> \<lparr>start = 0, earned = 5, last_mint = 0\<rparr>]"]
        stop_engine_idempotent [of "[''walletAddress'' \<mapsto> JString ''0xABC'']" "''0xABC''"
          "[''0xdef'' \<mapsto> \<lparr>start = 0, earned = 5, last_mint = 0\<rparr>]"]
        lower_0xABC
  by (simp add: prod_eq_iff)

section \<open>Settlement\<close>




text \<open>
  Claim C1 says that a failed mint leaves the accrued amount in place. The handler
  around the call in \<open>get_metrics\<close> (lines 136-137) would do so, but \<open>mint_tokens\<close>
  swallows the exception and returns the hash of a reverted transaction like that of
  a confirmed one, so the two statements after the call run. A session started
  at time 0 and read at time 10 has accrued \<open>357 / 2336\<close> (about 0.1528); with the
  external call timing out inside the \<open>try\<close> block, and likewise with a receipt of
  status 0, the session is left with \<open>earned = 0\<close>.
\<close>

theorem failed_mint_discards_earned:
  "mint_try (\<lambda>w n. Inl TimeExhausted) wallet_a (357 / 2336) = Inl TimeExhausted
   \<and> snd (get_metrics \<lparr>w3 = True, admin_account = True\<rparr>
             \<lparr>chain = \<lambda>w n. Inl TimeExhausted, print_error = \<lambda>e. None, print_mint_error = \<lambda>e. None\<rparr>
             (\<lambda>k. 10) (Some wallet_a)
             [wallet_a \<mapsto> \<lparr>start = 0, earned = 0, last_mint = 0\<rparr>]) wallet_a
       = Some \<lparr>start = 0, earned = 0, last_mint = 10\<rparr>
   \<and> mint_try (\<lambda>w n. Inr \<lparr>tx_hash = ''0xdead'', status = 0\<rparr>) wallet_a (357 / 2336)
       = Inr (Some ''0xdead'')
   \<and> snd (get_metrics \<lparr>w3 = True, admin_account = True\<rparr>
             \<lparr>chain = \<lambda>w n. Inr \<lparr>tx_hash = ''0xdead'', status = 0\<rparr>,
                print_error = \<lambda>e. None, print_mint_error = \<lambda>e. None\<rparr>
             (\<lambda>k. 10) (Some wallet_a)
             [wallet_a \<mapsto> \<lparr>start = 0, earned = 0, last_mint = 0\<rparr>]) wallet_a
       = Some \<lparr>start = 0, earned = 0, last_mint = 10\<rparr>
   \<and> earned \<lparr>start = 0, earned = 0, last_mint = 0\<rparr> + fst (calculate_earnings 100000 (10 - 0)) = 357 / 2336"
  unfolding calculate_earnings_value
  by (simp add: get_metrics_state lower_wallet_a calculate_earnings_value mint_tokens_value
        mint_try_def py_int_def Let_def)

section \<open>Repeated reads\<close>

text \<open>
  Claim C3 as stated (two reads at the same instant report the same total) fails. A
  session started at time 0 and read twice at time 10, with the last mint 2 seconds
  ago so that no settlement is admitted, reports \<open>357 / 2336\<close> and then
  \<open>357 / 1168\<close>: the second read adds the accrual of the ten seconds again.
\<close>

theorem repeated_read_counterexample:
  "\<exists>m1 m2.
     fst (get_metrics \<lparr>w3 = True, admin_account = True\<rparr>
            \<lparr>chain = \<lambda>w n. Inl ExternalError, print_error = \<lambda>e. None, print_mint_error = \<lambda>e. None\<rparr>
            (\<lambda>k. 10) (Some ''0xabc'') [''0xabc'' \<mapsto> \<lparr>start = 0, earned = 0, last_mint = 8\<rparr>]) = Inr m1
     \<and> fst (get_metrics \<lparr>w3 = True, admin_account = True\<rparr>
            \<lparr>chain = \<lambda>w n. Inl ExternalError, print_error = \<lambda>e. None, print_mint_error = \<lambda>e. None\<rparr>
            (\<lambda>k. 10) (Some ''0xabc'')
            (snd (get_metrics \<lparr>w3 = True, admin_account = True\<rparr>
                    \<lparr>chain = \<lambda>w n. Inl ExternalError, print_error = \<lambda>e. None, print_mint_error = \<lambda>e. None\<rparr>
                    (\<lambda>k. 10) (Some ''0xabc'')
                    [''0xabc'' \<mapsto> \<lparr>start = 0, earned = 0, last_mint = 8\<rparr>]))) = Inr m2
     \<and> totalProfit m1 = 357 / 2336
     \<and> totalProfit m2 = 357 / 1168"
proof -
  let ?cfg = "\<lparr>w3 = True, admin_account = True\<rparr>"
  let ?wd = "\<lparr>chain = \<lambda>w n. Inl ExternalError, print_error = \<lambda>e. None, print_mint_error = \<lambda>e. None\<rparr>"
  let ?s0 = "[''0xabc'' \<mapsto> \<lparr>start = 0, earned = 0, last_mint = 8\<rparr>]"
  let ?s1 = "snd (get_metrics ?cfg ?wd (\<lambda>k. 10) (Some ''0xabc'') ?s0)"
  have ne: "''0xabc'' \<noteq> []" by simp
  have s1: "?s1 = [''0xabc'' \<mapsto> \<lparr>start = 0, earned = 357 / 2336, last_mint = 8\<rparr>]"
    by (simp add: get_metrics_state lower_0xabc calculate_earnings_value Let_def)
  have s2: "snd (get_metrics ?cfg ?wd (\<lambda>k. 10) (Some ''0xabc'') ?s1)
              = [''0xabc'' \<mapsto> \<lparr>start = 0, earned = 357 / 1168, last_mint = 8\<rparr>]"
    unfolding s1 by (simp add: get_metrics_state lower_0xabc calculate_earnings_value Let_def)
  obtain m1 where m1: "fst (get_metrics ?cfg ?wd (\<lambda>k. 10) (Some ''0xabc'') ?s0) = Inr m1"
    using get_metrics_not_admitted [OF ne, where s = ?s0 and clock = "\<lambda>k. 10" and cfg = ?cfg and wd = ?wd]
    unfolding lower_0xabc by auto
  obtain m2 where m2: "fst (get_metrics ?cfg ?wd (\<lambda>k. 10) (Some ''0xabc'') ?s1) = Inr m2"
    using get_metrics_not_admitted [OF ne, where s = ?s1 and clock = "\<lambda>k. 10" and cfg = ?cfg and wd = ?wd]
    unfolding s1 lower_0xabc by auto
  have "totalProfit m1 = 357 / 2336"
    using get_metrics_answers [OF ne m1] unfolding s1 lower_0xabc by simp
  moreover have "totalProfit m2 = 357 / 1168"
    using get_metrics_answers [OF ne m2] unfolding s2 lower_0xabc by simp
  ultimately show ?thesis using m1 m2 by blast
qed

text \<open>
  Claim C3, amended. \<open>get_metrics\<close> computes the accrual over the whole time since
  \<open>start\<close> and adds it to \<open>earned\<close> on every call; the session has no field for the
  time of the last read. For an existing session, two calls at the same instant with no
  settlement admitted report totals that differ by the accrual of \<open>now - start\<close>; they
  agree exactly when \<open>now\<close> is the start time of the session.
\<close>

theorem repeated_read_accrues_again:
  assumes "x \<noteq> []" and "user_sessions (lower x) = Some sess"
    and "\<not> (5 \<le> clock 0 - last_mint sess \<and> w3 cfg \<and> admin_account cfg)"
  shows "\<exists>m1 m2.
     fst (get_metrics cfg wd clock (Some x) user_sessions) = Inr m1
     \<and> fst (get_metrics cfg wd clock (Some x)
              (snd (get_metrics cfg wd clock (Some x) user_sessions))) = Inr m2
     \<and> totalProfit m2 = totalProfit m1 + fst (calculate_earnings 100000 (clock 0 - start sess))
     \<and> (totalProfit m2 = totalProfit m1 \<longleftrightarrow> clock 0 = start sess)"
proof -
  let ?e = "fst (calculate_earnings 100000 (clock 0 - start sess))"
  let ?s1 = "snd (get_metrics cfg wd clock (Some x) user_sessions)"
  let ?s2 = "snd (get_metrics cfg wd clock (Some x) ?s1)"
  have s1: "?s1 = user_sessions(lower x \<mapsto> sess\<lparr>earned := earned sess + ?e\<rparr>)"
    using assms by (auto simp: get_metrics_state [OF assms(1)] Let_def)
  have s2: "?s2 = user_sessions(lower x \<mapsto> sess\<lparr>earned := earned sess + ?e + ?e\<rparr>)"
    unfolding s1 using assms by (auto simp: get_metrics_state [OF assms(1)] Let_def)
  obtain m1 where m1: "fst (get_metrics cfg wd clock (Some x) user_sessions) = Inr m1"
    using get_metrics_not_admitted [OF assms(1), where s = user_sessions and clock = clock and cfg = cfg and wd = wd] assms(2,3)
    by auto
  obtain m2 where m2: "fst (get_metrics cfg wd clock (Some x) ?s1) = Inr m2"
    using get_metrics_not_admitted [OF assms(1), where s = ?s1 and clock = clock and cfg = cfg and wd = wd] assms(3)
    unfolding s1 by auto
  have t1: "totalProfit m1 = earned sess + ?e"
    using get_metrics_answers [OF assms(1) m1] unfolding s1 by simp
  have t2: "totalProfit m2 = earned sess + ?e + ?e"
    using get_metrics_answers [OF assms(1) m2] unfolding s2 by simp
  have "?e = 0 \<longleftrightarrow> clock 0 = start sess"
    unfolding calculate_earnings_value by simp
  with t1 t2 have "totalProfit m2 = totalProfit m1 + ?e"
    "totalProfit m2 = totalProfit m1 \<longleftrightarrow> clock 0 = start sess" by auto
  with m1 m2 show ?thesis by blast
qed

theorem repeated_read_accrues_again_witness:
  "''0xabc'' \<noteq> []
   \<and> [''0xabc'' \<mapsto> \<lparr>start = 0, earned = 0, last_mint = 8\<rparr>] ''0xabc''
       = Some \<lparr>start = 0, earned = 0, last_mint = 8\<rparr>
   \<and> \<not> ((5::real) \<le> 10 - 8)
   \<and> (\<exists>m1 m2.
     fst (get_metrics \<lparr>w3 = True, admin_account = True\<rparr>
            \<lparr>chain = \<lambda>w n. Inl ExternalError, print_error = \<lambda>e. None, print_mint_error = \<lambda>e. None\<rparr>
            (\<lambda>k. 10) (Some ''0xabc'') [''0xabc'' \<mapsto> \<lparr>start = 0, earned = 0, last_mint = 8\<rparr>]) = Inr m1
     \<and> fst (get_metrics \<lparr>w3 = True, admin_account = True\<rparr>
            \<lparr>chain = \<lambda>w n. Inl ExternalError, print_error = \<lambda>e. None, print_mint_error = \<lambda>e. None\<rparr>
            (\<lambda>k. 10) (Some ''0xabc'')
            (snd (get_metrics \<lparr>w3 = True, admin_account = True\<rparr>
                    \<lparr>chain = \<lambda>w n. Inl ExternalError, print_error = \<lambda>e. None, print_mint_error = \<lambda>e. None\<rparr>
                    (\<lambda>k. 10) (Some ''0xabc'')
                    [''0xabc'' \<mapsto> \<lparr>start = 0, earned = 0, last_mint = 8\<rparr>]))) = Inr m2
     \<and> totalProfit m2 = totalProfit m1 + 357 / 2336
     \<and> totalProfit m2 \<noteq> totalProfit m1)"
  using repeated_read_accrues_again [where x = "''0xabc''" and cfg = "\<lparr>w3 = True, admin_account = True\<rparr>"
          and wd = "\<lparr>chain = \<lambda>w n. Inl ExternalError, print_error = \<lambda>e. None, print_mint_error = \<lambda>e. None\<rparr>"
          and clock = "\<lambda>k. 10"
          and user_sessions = "[''0xabc'' \<mapsto> \<lparr>start = 0, earned = 0, last_mint = 8\<rparr>]"
          and sess = "\<lparr>start = 0, earned = 0, last_mint = 8\<rparr>"]
  unfolding lower_0xabc calculate_earnings_value by (simp add: Let_def)

section \<open>Calls that overlap a mint in flight\<close>




text \<open>
  Claim C6 as stated (of the calls for one wallet that overlap within the throttle
  interval at most one is admitted) fails: \<open>last_mint\<close> is written only after
  \<open>mint_tokens\<close> has returned, and there is no flag for a mint in flight. A call at
  time 10 is admitted; a second call at time 11, made while the first waits in
  \<open>mint_tokens\<close>, is admitted as well.
\<close>

theorem overlapping_calls_counterexample:
  "fst (metrics_before_mint \<lparr>w3 = True, admin_account = True\<rparr> (\<lambda>k. 10) (Some ''0xabc'')
          [''0xabc'' \<mapsto> \<lparr>start = 0, earned = 0, last_mint = 0\<rparr>])
     = Inr (Some \<lparr>mint_wallet = ''0xabc'', mint_now = 10, mint_amount = 357 / 2336\<rparr>)
   \<and> fst (metrics_before_mint \<lparr>w3 = True, admin_account = True\<rparr> (\<lambda>k. 11) (Some ''0xABC'')
            (snd (metrics_before_mint \<lparr>w3 = True, admin_account = True\<rparr> (\<lambda>k. 10) (Some ''0xabc'')
                    [''0xabc'' \<mapsto> \<lparr>start = 0, earned = 0, last_mint = 0\<rparr>])))
     = Inr (Some \<lparr>mint_wallet = ''0xabc'', mint_now = 11, mint_amount = 7497 / 23360\<rparr>)"
proof -
  let ?cfg = "\<lparr>w3 = True, admin_account = True\<rparr>"
  let ?s0 = "[''0xabc'' \<mapsto> \<lparr>start = 0, earned = 0, last_mint = 0\<rparr>]"
  have ne: "''0xabc'' \<noteq> []" "''0xABC'' \<noteq> []" by simp_all
  have b1: "metrics_before_mint ?cfg (\<lambda>k. 10) (Some ''0xabc'') ?s0 =
     (Inr (Some \<lparr>mint_wallet = ''0xabc'', mint_now = 10, mint_amount = 357 / 2336\<rparr>),
      [''0xabc'' \<mapsto> \<lparr>start = 0, earned = 357 / 2336, last_mint = 0\<rparr>])"
    unfolding metrics_before_mint_Some [OF ne(1)] lower_0xabc calculate_earnings_value by (simp add: Let_def)
  have b2: "fst (metrics_before_mint ?cfg (\<lambda>k. 11) (Some ''0xABC'')
                   [''0xabc'' \<mapsto> \<lparr>start = 0, earned = 357 / 2336, last_mint = 0\<rparr>])
      = Inr (Some \<lparr>mint_wallet = ''0xabc'', mint_now = 11, mint_amount = 7497 / 23360\<rparr>)"
    unfolding metrics_before_mint_Some [OF ne(2)] lower_0xABC calculate_earnings_value by (simp add: Let_def)
  show ?thesis unfolding b1 using b2 by simp
qed

text \<open>
  Claim C6, amended. Take calls of \<open>get_metrics\<close> that run one after another, with
  any headers, all their clock readings in a window shorter than 5 seconds, and a
  console on which the \<open>print\<close> of line 195 does not raise, so that every call of
  \<open>mint_tokens\<close> returns. Then for every wallet at most one of the calls passes the
  test of line 131, whatever case variants of the address the headers use. Nothing makes
  the test and the later update of \<open>last_mint\<close> atomic, so the bound does not extend
  to calls that overlap a mint in flight.
\<close>

theorem sequential_calls_admit_at_most_one:
  assumes "\<forall>(wd, c, x)\<in>set calls. (\<forall>e. print_error wd e = None) \<and> (\<forall>k. t \<le> c k \<and> c k < t + 5)"
  shows "fst (metrics_calls cfg wallet calls user_sessions) \<le> 1"
  using assms
proof (induction calls arbitrary: user_sessions)
  case Nil
  then show ?case by simp
next
  case (Cons call calls)
  obtain wd c x where call: "call = (wd, c, x)" by (cases call)
  have win: "\<And>k. t \<le> c k \<and> c k < t + 5" using Cons.prems call by simp
  have pr: "\<forall>e. print_error wd e = None" using Cons.prems call by simp
  have rest: "\<forall>(wd, c, x)\<in>set calls. (\<forall>e. print_error wd e = None) \<and> (\<forall>k. t \<le> c k \<and> c k < t + 5)"
    using Cons.prems by simp
  then have rest': "\<forall>(wd, c, x)\<in>set calls. \<forall>k. t \<le> c k \<and> c k < t + 5" by auto
  let ?s = user_sessions
  let ?adm = "(case fst (metrics_before_mint cfg c x ?s) of
                  Inr (Some f) \<Rightarrow> if mint_wallet f = wallet then 1 else 0
                | _ \<Rightarrow> 0) :: nat"
  show ?case
  proof (cases "?adm = 0")
    case True
    then show ?thesis
      unfolding call metrics_calls_Cons using Cons.IH [OF rest] by simp
  next
    case False
    have nv: "\<not> (x = None \<or> x = Some [])"
    proof
      assume "x = None \<or> x = Some []"
      from metrics_before_mint_invalid [OF this, of cfg c ?s] False show False by simp
    qed
    then obtain h where h: "x = Some h" "h \<noteq> []" by auto
    let ?session0 = "case ?s (lower h) of None \<Rightarrow> new_session c | Some s0 \<Rightarrow> s0"
    let ?now = "case ?s (lower h) of None \<Rightarrow> c 2 | Some s0 \<Rightarrow> c 0"
    let ?session1 = "?session0\<lparr>earned := earned ?session0 +
                       fst (calculate_earnings 100000 (?now - start ?session0))\<rparr>"
    have adm: "5 \<le> ?now - last_mint ?session0 \<and> w3 cfg \<and> admin_account cfg" and wl: "lower h = wallet"
      using False unfolding h(1) metrics_before_mint_Some [OF h(2)]
      by (simp_all add: Let_def split: if_splits)
    have one: "?adm = 1"
      unfolding h(1) metrics_before_mint_Some [OF h(2)] using adm wl by (simp add: Let_def)
    have nw: "t \<le> ?now" using win [of 0] win [of 2] by (auto split: option.splits)
    obtain r where r: "mint_tokens cfg wd (lower h) (earned ?session1) = Inr r"
      using mint_tokens_returns [OF pr] by blast
    have g: "snd (get_metrics cfg wd c x ?s) =
               ?s(lower h \<mapsto> ?session1\<lparr>last_mint := ?now, earned := 0\<rparr>)"
      unfolding h(1) get_metrics_state [OF h(2)] using adm r by (simp add: Let_def)
    have inv: "\<forall>sess. (snd (get_metrics cfg wd c x ?s)) wallet = Some sess \<longrightarrow> t \<le> last_mint sess"
      unfolding g using wl nw by auto
    have "fst (metrics_calls cfg wallet calls (snd (get_metrics cfg wd c x ?s))) = 0"
      by (rule metrics_calls_none_admitted
            [where s = "snd (get_metrics cfg wd c x ?s)" and wallet = wallet, OF rest' inv])
    then show ?thesis unfolding call metrics_calls_Cons one by simp
  qed
qed

theorem sequential_calls_admit_at_most_one_witness:
  "fst (metrics_calls \<lparr>w3 = True, admin_account = True\<rparr> ''0xabc''
          [(\<lparr>chain = \<lambda>w n. Inl ExternalError, print_error = \<lambda>e. None, print_mint_error = \<lambda>e. None\<rparr>,
            \<lambda>k. 10, Some ''0xabc''),
           (\<lparr>chain = \<lambda>w n. Inl ExternalError, print_error = \<lambda>e. None, print_mint_error = \<lambda>e. None\<rparr>,
            \<lambda>k. 11, Some ''0xABC''),
           (\<lparr>chain = \<lambda>w n. Inl ExternalError, print_error = \<lambda>e. None, print_mint_error = \<lambda>e. None\<rparr>,
            \<lambda>k. 12, Some ''0xabc'')]
          [''0xabc'' \<mapsto> \<lparr>start = 0, earned = 0, last_mint = 0\<rparr>]) \<le> 1"
proof -
  have w: "\<forall>(wd, c, x)\<in>set
          [(\<lparr>chain = \<lambda>w n. Inl ExternalError, print_error = \<lambda>e. None, print_mint_error = \<lambda>e. None\<rparr>,
            \<lambda>k. 10 :: real, Some ''0xabc''),
           (\<lparr>chain = \<lambda>w n. Inl ExternalError, print_error = \<lambda>e. None, print_mint_error = \<lambda>e. None\<rparr>,
            \<lambda>k. 11, Some ''0xABC''),
           (\<lparr>chain = \<lambda>w n. Inl ExternalError, print_error = \<lambda>e. None, print_mint_error = \<lambda>e. None\<rparr>,
            \<lambda>k. 12, Some ''0xabc'')].
        (\<forall>e. print_error wd e = None) \<and> (\<forall>k::nat. 8 \<le> c k \<and> c k < 8 + 5)"
    by simp
  show ?thesis
    by (rule sequential_calls_admit_at_most_one [OF w])
qed

end
